theory Spec2Isabelle
  imports Main
begin

section \<open>fast\_clean/depends.py: the dependency providers\<close>

text \<open>
  The module \<^verbatim>\<open>depends.py\<close> holds three request helpers (\<^verbatim>\<open>get_nested_form_data\<close>,
  \<^verbatim>\<open>get_pagination\<close>, \<^verbatim>\<open>get_sorting\<close>) and the class \<^verbatim>\<open>CoreProvider\<close>, whose static
  methods build the shared objects of the application. The objects they call
  (\<^verbatim>\<open>RedisManager\<close>, \<^verbatim>\<open>CacheManager\<close>, the factories, the settings repository, pydantic
  and \<^verbatim>\<open>stringcase\<close>) live in other modules: each of them enters a function of this
  theory as an argument, under the name it has in the source. The one body written out
  from the specification, \<open>RedisManager_init\<close>, is marked as such. A Python \<^verbatim>\<open>str\<close> is a
  \<open>string\<close>; the characters the module looks at (\<^verbatim>\<open>,\<close> and \<^verbatim>\<open>-\<close>) are ASCII.

  An exception is a value of type \<open>error\<close>. A function that can raise returns
  \<open>error + 'a\<close> (\<open>Inl\<close> is the raise). A function that touches, or hands control to code
  that may touch, the two process-wide singleton attributes \<^verbatim>\<open>RedisManager.redis\<close> and
  \<^verbatim>\<open>CacheManager.cache_repository\<close> takes the record \<open>globals\<close> and returns it next to
  its result, also when it raises: Python keeps an assignment made before a raise.
  Every \<^verbatim>\<open>await\<close> is read as a plain call: one call is followed from entry to exit,
  with nothing interleaved.
\<close>

subsection \<open>Exceptions\<close>

datatype error =
    NotImplementedError string
  | ValueError string
  | AssertionError
  | IndexError
  | ValidationError string

subsection \<open>The process-wide singleton attributes\<close>

text \<open>
  \<^verbatim>\<open>RedisManager.redis\<close> and \<^verbatim>\<open>CacheManager.cache_repository\<close> are class attributes that
  are \<^verbatim>\<open>None\<close> until published. \<open>'r\<close> is the type of the Redis client, \<open>'c\<close> the type of
  the cache repository.
\<close>

record ('r, 'c) globals =
  RedisManager_redis :: "'r option"
  CacheManager_cache_repository :: "'c option"

subsection \<open>Settings\<close>

text \<open>
  The settings schemas are declared in \<^verbatim>\<open>settings.py\<close>. The fields below are the ones
  \<^verbatim>\<open>depends.py\<close> reads; the schemas the module only passes on (the cache settings, the
  Kafka settings and the \<^verbatim>\<open>s3\<close> block) are type variables.
\<close>

record CoreSettingsSchema =
  redis_dsn :: "string option"
  secret_key :: string

record 's3 CoreStorageSettingsSchema =
  provider :: string
  dir :: "string option"
  s3 :: "'s3 option"

text \<open>
  \<^verbatim>\<open>settings_repository.get(Schema)\<close> returns the validated record of that schema or
  raises. The repository is the record of what each of the four calls made in this module
  gives.
\<close>

record ('cs, 'ks, 's3) SettingsRepository =
  get_CoreSettingsSchema :: "error + CoreSettingsSchema"
  get_CoreCacheSettingsSchema :: "error + 'cs"
  get_CoreStorageSettingsSchema :: "error + 's3 CoreStorageSettingsSchema"
  get_CoreKafkaSettingsSchema :: "error + 'ks"

subsection \<open>Request helpers\<close>

text \<open>
  \<^verbatim>\<open>PaginationRequestSchema\<close> is declared in \<^verbatim>\<open>schemas.py\<close>: a validating model with the
  two fields the call names, \<^verbatim>\<open>page\<close> and \<^verbatim>\<open>page_size\<close>. Its constructor raises when the
  validation of the fields refuses the values, and otherwise builds the record that holds
  them. The validation enters as the argument \<open>validate\<close>: the error the constructor
  raises for the two values, if any.
\<close>

record PaginationRequestSchema =
  page :: int
  page_size :: int

definition new_PaginationRequestSchema ::
  "(int \<Rightarrow> int \<Rightarrow> error option) \<Rightarrow> int \<Rightarrow> int \<Rightarrow> error + PaginationRequestSchema" where
  "new_PaginationRequestSchema validate page_value page_size_value =
     (case validate page_value page_size_value of
        Some e \<Rightarrow> Inl e
      | None \<Rightarrow> Inr \<lparr>page = page_value, page_size = page_size_value\<rparr>)"

text \<open>
  \<^verbatim>\<open>return PaginationRequestSchema(page=page or 1, page_size=page_size or 10)\<close>. Python's
  \<^verbatim>\<open>x or d\<close> on an \<^verbatim>\<open>int | None\<close> is \<^verbatim>\<open>x\<close> when \<^verbatim>\<open>x\<close> is truthy (neither \<^verbatim>\<open>None\<close> nor
  \<^verbatim>\<open>0\<close>) and \<^verbatim>\<open>d\<close> otherwise; a negative number is truthy.
\<close>

definition truthy :: "int option \<Rightarrow> bool" where
  "truthy x = (case x of None \<Rightarrow> False | Some n \<Rightarrow> n \<noteq> 0)"

definition or_default :: "int option \<Rightarrow> int \<Rightarrow> int" where
  "or_default x d = (if truthy x then the x else d)"

definition get_pagination ::
  "(int \<Rightarrow> int \<Rightarrow> error option) \<Rightarrow> int option \<Rightarrow> int option \<Rightarrow>
   error + PaginationRequestSchema" where
  "get_pagination validate page_arg page_size_arg =
     new_PaginationRequestSchema validate (or_default page_arg 1) (or_default page_size_arg 10)"

text \<open>
  \<^verbatim>\<open>str.split(sep)\<close> with a one-character separator: the pieces between the separators,
  empty pieces included; the result is never the empty list.
\<close>

fun str_split :: "char \<Rightarrow> string \<Rightarrow> string list" where
  "str_split sep [] = [[]]"
| "str_split sep (c # cs) =
     (if c = sep then [] # str_split sep cs
      else (case str_split sep cs of
              [] \<Rightarrow> [[c]]
            | piece # pieces \<Rightarrow> (c # piece) # pieces))"

text \<open>
  One element of the comprehension of \<^verbatim>\<open>get_sorting\<close>:
  \<^verbatim>\<open>s[0] + snakecase(s[1:]) if s[0] == '-' else snakecase(s)\<close>. The condition
  \<^verbatim>\<open>s[0] == '-'\<close> is evaluated first, and \<^verbatim>\<open>s[0]\<close> raises \<^verbatim>\<open>IndexError\<close> on the empty
  string. \<^verbatim>\<open>snakecase\<close> is the function of the \<^verbatim>\<open>stringcase\<close> package.
\<close>

definition sorting_field :: "(string \<Rightarrow> string) \<Rightarrow> string \<Rightarrow> error + string" where
  "sorting_field snakecase s =
     (case s of
        [] \<Rightarrow> Inl IndexError
      | c # rest \<Rightarrow> if c = CHR ''-'' then Inr (c # snakecase rest) else Inr (snakecase s))"

text \<open>A list comprehension whose element expression can raise: the first raise ends it.\<close>

fun comprehension :: "('a \<Rightarrow> error + 'b) \<Rightarrow> 'a list \<Rightarrow> error + 'b list" where
  "comprehension f [] = Inr []"
| "comprehension f (x # xs) =
     (case f x of
        Inl e \<Rightarrow> Inl e
      | Inr y \<Rightarrow> (case comprehension f xs of Inl e \<Rightarrow> Inl e | Inr ys \<Rightarrow> Inr (y # ys)))"

definition get_sorting :: "(string \<Rightarrow> string) \<Rightarrow> string option \<Rightarrow> error + string list" where
  "get_sorting snakecase sorting =
     (case sorting of
        None \<Rightarrow> Inr []
      | Some str \<Rightarrow>
          if str = [] then Inr []
          else comprehension (sorting_field snakecase) (str_split CHR '','' str))"

subsection \<open>The members of CoreProvider and their scopes\<close>

text \<open>
  The class body of \<^verbatim>\<open>CoreProvider\<close>, member by member in source order: the member's
  name, whether it is made by \<^verbatim>\<open>provide\<close> (as a decorator or as a call), and the
  \<^verbatim>\<open>scope=\<close> argument given to \<^verbatim>\<open>provide\<close>, if any. The class sets
  \<^verbatim>\<open>scope = Scope.REQUEST\<close>. In the container library a member is a registered provider
  only when it is made by \<^verbatim>\<open>provide\<close>, and a provider without a \<^verbatim>\<open>scope=\<close> argument
  gets the scope of its class.
\<close>

datatype Scope = APP | REQUEST

record member =
  member_name :: string
  provide :: bool
  scope_arg :: "Scope option"

definition CoreProvider_scope :: Scope where
  "CoreProvider_scope = REQUEST"

definition CoreProvider_members :: "member list" where
  "CoreProvider_members =
     [\<lparr>member_name = ''settings_repository_factory'', provide = True, scope_arg = Some APP\<rparr>,
      \<lparr>member_name = ''storage_repository_factory'', provide = True, scope_arg = Some APP\<rparr>,
      \<lparr>member_name = ''get_settings_repository'', provide = True, scope_arg = Some APP\<rparr>,
      \<lparr>member_name = ''get_settings'', provide = True, scope_arg = Some APP\<rparr>,
      \<lparr>member_name = ''get_broker_repository'', provide = False, scope_arg = None\<rparr>,
      \<lparr>member_name = ''get_cache_repository'', provide = True, scope_arg = Some APP\<rparr>,
      \<lparr>member_name = ''get_storage_repository'', provide = True, scope_arg = Some APP\<rparr>,
      \<lparr>member_name = ''get_async_session'', provide = True, scope_arg = None\<rparr>,
      \<lparr>member_name = ''get_session_manager'', provide = True, scope_arg = None\<rparr>,
      \<lparr>member_name = ''seed_service'', provide = True, scope_arg = None\<rparr>,
      \<lparr>member_name = ''transaction_service'', provide = True, scope_arg = None\<rparr>,
      \<lparr>member_name = ''get_cryptography_service_factory'', provide = True, scope_arg = Some APP\<rparr>,
      \<lparr>member_name = ''get_cryptography_service'', provide = True, scope_arg = Some APP\<rparr>,
      \<lparr>member_name = ''get_lock_service'', provide = True, scope_arg = Some APP\<rparr>]"

text \<open>
  The scope under which a member is registered: \<open>None\<close> when the class has no such
  member or the member is not made by \<^verbatim>\<open>provide\<close>.
\<close>

fun registered_scope :: "Scope \<Rightarrow> member list \<Rightarrow> string \<Rightarrow> Scope option" where
  "registered_scope class_scope [] name = None"
| "registered_scope class_scope (m # ms) name =
     (if member_name m = name then
        (if provide m then
           Some (case scope_arg m of None \<Rightarrow> class_scope | Some sc \<Rightarrow> sc)
         else None)
      else registered_scope class_scope ms name)"

definition CoreProvider_registered :: "string \<Rightarrow> Scope option" where
  "CoreProvider_registered name = registered_scope CoreProvider_scope CoreProvider_members name"

subsection \<open>get\_broker\_repository\<close>

text \<open>
  \<^verbatim>\<open>kafka_settings = await settings_repository.get(CoreKafkaSettingsSchema)\<close>, then
  \<^verbatim>\<open>yield BrokerFactory.make_static(kafka_settings)\<close>. \<open>make_static\<close> is the static method
  of the broker factory; the value is the one the generator yields.
\<close>

definition get_broker_repository ::
  "('ks \<Rightarrow> error + 'b) \<Rightarrow> ('cs, 'ks, 's3) SettingsRepository \<Rightarrow> error + 'b" where
  "get_broker_repository make_static settings_repository =
     (case get_CoreKafkaSettingsSchema settings_repository of
        Inl e \<Rightarrow> Inl e
      | Inr kafka_settings \<Rightarrow> make_static kafka_settings)"

subsection \<open>get\_cache\_repository\<close>

text \<open>
  \<^verbatim>\<open>RedisManager.init(dsn)\<close> and \<^verbatim>\<open>CacheManager.init(cache_settings, redis)\<close> are class
  methods of the two holder classes; their bodies are in other modules. Each is an
  argument here: \<open>redis_init\<close> takes the DSN and the current \<^verbatim>\<open>RedisManager.redis\<close>,
  \<open>cache_init\<close> takes the cache settings, the Redis handle passed to it and the current
  \<^verbatim>\<open>CacheManager.cache_repository\<close>. Each returns the exception it raised, if any, and
  the value its class attribute has afterwards.
\<close>

type_synonym 'r redis_init = "string \<Rightarrow> 'r option \<Rightarrow> error option \<times> 'r option"


text \<open>
  The call \<^verbatim>\<open>RedisManager.init(dsn)\<close> on the globals: the method sees the current
  \<^verbatim>\<open>RedisManager.redis\<close> and leaves its new value there.
\<close>

definition call_redis_init ::
  "'r redis_init \<Rightarrow> string \<Rightarrow> ('r, 'c) globals \<Rightarrow> error option \<times> ('r, 'c) globals" where
  "call_redis_init redis_init dsn g =
     (case redis_init dsn (RedisManager_redis g) of
        (raised, redis) \<Rightarrow> (raised, g\<lparr>RedisManager_redis := redis\<rparr>))"



subsection \<open>get\_storage\_repository\<close>

datatype StorageTypeEnum = S3 | LOCAL

record LocalStorageParamsSchema =
  path :: string

text \<open>
  The second argument of the factory's \<^verbatim>\<open>make\<close>: an \<^verbatim>\<open>S3StorageParamsSchema\<close> (its
  declaration is in another module: the type variable \<open>'p\<close>) or a
  \<^verbatim>\<open>LocalStorageParamsSchema\<close>.
\<close>

datatype 'p StorageParams =
    S3StorageParams 'p
  | LocalStorageParams LocalStorageParamsSchema

text \<open>
  \<open>factory_make\<close> is \<^verbatim>\<open>storage_repository_factory.make\<close>, the method of the injected
  factory: it may raise, and it runs code of another module, so it takes and returns the globals.
  \<open>model_dump\<close> is pydantic's dump of the \<^verbatim>\<open>s3\<close> block and \<open>model_validate\<close> is
  \<^verbatim>\<open>S3StorageParamsSchema.model_validate\<close>, which raises on a dump that does not
  validate.
\<close>

type_synonym ('p, 'i, 'r, 'c) storage_make =
  "StorageTypeEnum \<Rightarrow> 'p StorageParams \<Rightarrow> ('r, 'c) globals \<Rightarrow> (error + 'i) \<times> ('r, 'c) globals"

definition get_storage_repository ::
  "('s3 \<Rightarrow> 'd) \<Rightarrow> ('d \<Rightarrow> error + 'p) \<Rightarrow> ('cs, 'ks, 's3) SettingsRepository \<Rightarrow>
   ('p, 'i, 'r, 'c) storage_make \<Rightarrow> ('r, 'c) globals \<Rightarrow> (error + 'i) \<times> ('r, 'c) globals" where
  "get_storage_repository model_dump model_validate settings_repository factory_make g =
     (case get_CoreStorageSettingsSchema settings_repository of
        Inl e \<Rightarrow> (Inl e, g)
      | Inr storage_settings \<Rightarrow>
          if provider storage_settings = ''s3'' \<and> s3 storage_settings \<noteq> None then
            (case model_validate (model_dump (the (s3 storage_settings))) of
               Inl e \<Rightarrow> (Inl e, g)
             | Inr params \<Rightarrow> factory_make S3 (S3StorageParams params) g)
          else if provider storage_settings = ''local'' \<and> dir storage_settings \<noteq> None then
            factory_make LOCAL (LocalStorageParams \<lparr>path = the (dir storage_settings)\<rparr>) g
          else
            (Inl (NotImplementedError (''Storage '' @ provider storage_settings @ '' not allowed'')),
             g))"

text \<open>
  The two conditions on a storage configuration. \<open>matching_sub_block_present\<close> is the
  disjunction of the two conditions the function tests. \<open>exactly_one_sub_block_matching\<close>
  follows the words of the specification: exactly one of the two sub-blocks is present,
  and it is the one of the chosen provider.
\<close>

definition matching_sub_block_present :: "'s3 CoreStorageSettingsSchema \<Rightarrow> bool" where
  "matching_sub_block_present storage_settings =
     (provider storage_settings = ''s3'' \<and> s3 storage_settings \<noteq> None \<or>
      provider storage_settings = ''local'' \<and> dir storage_settings \<noteq> None)"

definition exactly_one_sub_block_matching :: "'s3 CoreStorageSettingsSchema \<Rightarrow> bool" where
  "exactly_one_sub_block_matching storage_settings =
     (provider storage_settings = ''s3'' \<and> s3 storage_settings \<noteq> None \<and>
        dir storage_settings = None \<or>
      provider storage_settings = ''local'' \<and> dir storage_settings \<noteq> None \<and>
        s3 storage_settings = None)"

subsection \<open>The cryptography service\<close>

text \<open>
  \<^verbatim>\<open>CryptographyServiceFactory(settings.secret_key)\<close> keeps the key it is made with.
  \<^verbatim>\<open>CryptographicAlgorithmEnum\<close> is declared in another module; \<open>AES_GCM\<close> is the member
  this module names, \<open>AES_CBC\<close> stands for a member it does not name. \<open>factory_make\<close> is
  the \<^verbatim>\<open>make\<close> method of the factory.
\<close>

datatype CryptographyServiceFactory = CryptographyServiceFactory string

datatype CryptographicAlgorithmEnum = AES_GCM | AES_CBC

definition get_cryptography_service_factory :: "CoreSettingsSchema \<Rightarrow> CryptographyServiceFactory" where
  "get_cryptography_service_factory settings = CryptographyServiceFactory (secret_key settings)"

definition get_cryptography_service ::
  "(CryptographyServiceFactory \<Rightarrow> CryptographicAlgorithmEnum \<Rightarrow> error + 'sv) \<Rightarrow>
   CryptographyServiceFactory \<Rightarrow> error + 'sv" where
  "get_cryptography_service factory_make cryptography_service_factory =
     factory_make cryptography_service_factory AES_GCM"

subsection \<open>get\_lock\_service\<close>

text \<open>\<^verbatim>\<open>RedisLockService(redis)\<close> is built on the handle it is given.\<close>

datatype 'r RedisLockService = RedisLockService 'r

definition get_lock_service ::
  "'r redis_init \<Rightarrow> CoreSettingsSchema \<Rightarrow> ('r, 'c) globals \<Rightarrow>
   (error + 'r RedisLockService) \<times> ('r, 'c) globals" where
  "get_lock_service redis_init settings g =
     (case redis_dsn settings of
        None \<Rightarrow> (Inl AssertionError, g)
      | Some dsn \<Rightarrow>
          (case call_redis_init redis_init dsn g of
             (Some e, g1) \<Rightarrow> (Inl e, g1)
           | (None, g1) \<Rightarrow>
               (case RedisManager_redis g1 of
                  None \<Rightarrow> (Inl AssertionError, g1)
                | Some redis \<Rightarrow> (Inr (RedisLockService redis), g1))))"

text \<open>
  Modelled from the spec: the body of \<^verbatim>\<open>RedisManager.init\<close>, which is in the module
  \<^verbatim>\<open>redis.py\<close>. The specification's contract for the lazy singleton managers: \<^verbatim>\<open>init\<close> is
  idempotent, a no-op if already initialized; otherwise it constructs the shared client
  from configuration and publishes it. \<open>from_url\<close> constructs the client from the DSN.
\<close>

definition RedisManager_init :: "(string \<Rightarrow> 'r) \<Rightarrow> 'r redis_init" where
  "RedisManager_init from_url dsn redis =
     (case redis of
        Some client \<Rightarrow> (None, Some client)
      | None \<Rightarrow> (None, Some (from_url dsn)))"

section \<open>Properties\<close>

subsection \<open>The storage repository\<close>

text \<open>
  Claim C1. Once the settings repository has given the storage settings,
  \<open>get_storage_repository\<close> returns what the storage factory makes with the \<open>S3\<close>
  discriminator and the validated S3 parameters when the provider is \<^verbatim>\<open>'s3'\<close> and the
  \<^verbatim>\<open>s3\<close> block is present (a validation error of the block is raised instead of a call
  of the factory); it returns what the factory makes with the \<open>LOCAL\<close> discriminator and
  the configured directory when the provider is \<^verbatim>\<open>'local'\<close> and the directory is present;
  in every other case it raises \<^verbatim>\<open>NotImplementedError('Storage ... not allowed')\<close> and
  the factory is not called: there is no default backend.
\<close>

theorem get_storage_repository_dispatch:
  assumes "get_CoreStorageSettingsSchema settings_repository = Inr storage_settings"
  shows "(provider storage_settings = ''s3'' \<and> s3 storage_settings = Some block \<and>
            model_validate (model_dump block) = Inr params \<longrightarrow>
          get_storage_repository model_dump model_validate settings_repository factory_make g =
            factory_make S3 (S3StorageParams params) g) \<and>
         (provider storage_settings = ''s3'' \<and> s3 storage_settings = Some block \<and>
            model_validate (model_dump block) = Inl e \<longrightarrow>
          get_storage_repository model_dump model_validate settings_repository factory_make g =
            (Inl e, g)) \<and>
         (provider storage_settings = ''local'' \<and> dir storage_settings = Some d \<longrightarrow>
          get_storage_repository model_dump model_validate settings_repository factory_make g =
            factory_make LOCAL (LocalStorageParams \<lparr>path = d\<rparr>) g) \<and>
         (\<not> (provider storage_settings = ''s3'' \<and> s3 storage_settings \<noteq> None) \<and>
          \<not> (provider storage_settings = ''local'' \<and> dir storage_settings \<noteq> None) \<longrightarrow>
          get_storage_repository model_dump model_validate settings_repository factory_make g =
            (Inl (NotImplementedError (''Storage '' @ provider storage_settings @ '' not allowed'')), g))"
  using assms by (auto simp add: get_storage_repository_def)

text \<open>
  The three cases of C1 at concrete settings: an \<^verbatim>\<open>s3\<close> configuration, a \<^verbatim>\<open>local\<close> one and
  an \<^verbatim>\<open>ftp\<close> one, with a factory that returns the discriminator and the parameters it
  was called with.
\<close>

theorem get_storage_repository_dispatch_witness:
  "get_storage_repository (\<lambda>b. b) Inr
      \<lparr>get_CoreSettingsSchema = Inl (ValidationError ''core''),
       get_CoreCacheSettingsSchema = Inl (ValidationError ''cache'') :: error + unit,
       get_CoreStorageSettingsSchema = Inr \<lparr>provider = ''s3'', dir = None, s3 = Some ''bucket''\<rparr>,
       get_CoreKafkaSettingsSchema = Inl (ValidationError ''kafka'') :: error + unit\<rparr>
      (\<lambda>t p g. (Inr (t, p), g))
      \<lparr>RedisManager_redis = None, CacheManager_cache_repository = None\<rparr>
    = (Inr (S3, S3StorageParams ''bucket''),
       \<lparr>RedisManager_redis = (None :: unit option), CacheManager_cache_repository = (None :: unit option)\<rparr>)
   \<and> get_storage_repository (\<lambda>b. b) Inr
      \<lparr>get_CoreSettingsSchema = Inl (ValidationError ''core''),
       get_CoreCacheSettingsSchema = Inl (ValidationError ''cache'') :: error + unit,
       get_CoreStorageSettingsSchema = Inr \<lparr>provider = ''local'', dir = Some ''/data'', s3 = None :: string option\<rparr>,
       get_CoreKafkaSettingsSchema = Inl (ValidationError ''kafka'') :: error + unit\<rparr>
      (\<lambda>t p g. (Inr (t, p), g))
      \<lparr>RedisManager_redis = None, CacheManager_cache_repository = None\<rparr>
    = (Inr (LOCAL, LocalStorageParams \<lparr>path = ''/data''\<rparr>),
       \<lparr>RedisManager_redis = (None :: unit option), CacheManager_cache_repository = (None :: unit option)\<rparr>)
   \<and> get_storage_repository (\<lambda>b. b) Inr
      \<lparr>get_CoreSettingsSchema = Inl (ValidationError ''core''),
       get_CoreCacheSettingsSchema = Inl (ValidationError ''cache'') :: error + unit,
       get_CoreStorageSettingsSchema = Inr \<lparr>provider = ''ftp'', dir = Some ''/data'', s3 = Some ''bucket''\<rparr>,
       get_CoreKafkaSettingsSchema = Inl (ValidationError ''kafka'') :: error + unit\<rparr>
      (\<lambda>t p g. (Inr (t, p), g))
      \<lparr>RedisManager_redis = None, CacheManager_cache_repository = None\<rparr>
    = (Inl (NotImplementedError ''Storage ftp not allowed''),
       \<lparr>RedisManager_redis = (None :: unit option), CacheManager_cache_repository = (None :: unit option)\<rparr>)"
  using
    get_storage_repository_dispatch [where
      settings_repository = "\<lparr>get_CoreSettingsSchema = Inl (ValidationError ''core''),
       get_CoreCacheSettingsSchema = Inl (ValidationError ''cache'') :: error + unit,
       get_CoreStorageSettingsSchema = Inr \<lparr>provider = ''s3'', dir = None, s3 = Some ''bucket''\<rparr>,
       get_CoreKafkaSettingsSchema = Inl (ValidationError ''kafka'') :: error + unit\<rparr>"
      and storage_settings = "\<lparr>provider = ''s3'', dir = None, s3 = Some ''bucket''\<rparr>"
      and block = "''bucket''" and model_validate = Inr and model_dump = "\<lambda>b. b"
      and params = "''bucket''" and factory_make = "\<lambda>t p g. (Inr (t, p), g)"
      and g = "\<lparr>RedisManager_redis = (None :: unit option), CacheManager_cache_repository = (None :: unit option)\<rparr>"]
    get_storage_repository_dispatch [where
      settings_repository = "\<lparr>get_CoreSettingsSchema = Inl (ValidationError ''core''),
       get_CoreCacheSettingsSchema = Inl (ValidationError ''cache'') :: error + unit,
       get_CoreStorageSettingsSchema = Inr \<lparr>provider = ''local'', dir = Some ''/data'', s3 = None :: string option\<rparr>,
       get_CoreKafkaSettingsSchema = Inl (ValidationError ''kafka'') :: error + unit\<rparr>"
      and storage_settings = "\<lparr>provider = ''local'', dir = Some ''/data'', s3 = None :: string option\<rparr>"
      and d = "''/data''" and model_validate = Inr and model_dump = "\<lambda>b. b"
      and factory_make = "\<lambda>t p g. (Inr (t, p), g)"
      and g = "\<lparr>RedisManager_redis = (None :: unit option), CacheManager_cache_repository = (None :: unit option)\<rparr>"]
    get_storage_repository_dispatch [where
      settings_repository = "\<lparr>get_CoreSettingsSchema = Inl (ValidationError ''core''),
       get_CoreCacheSettingsSchema = Inl (ValidationError ''cache'') :: error + unit,
       get_CoreStorageSettingsSchema = Inr \<lparr>provider = ''ftp'', dir = Some ''/data'', s3 = Some ''bucket''\<rparr>,
       get_CoreKafkaSettingsSchema = Inl (ValidationError ''kafka'') :: error + unit\<rparr>"
      and storage_settings = "\<lparr>provider = ''ftp'', dir = Some ''/data'', s3 = Some ''bucket''\<rparr>"
      and model_validate = Inr and model_dump = "\<lambda>b. b"
      and factory_make = "\<lambda>t p g. (Inr (t, p), g)"
      and g = "\<lparr>RedisManager_redis = (None :: unit option), CacheManager_cache_repository = (None :: unit option)\<rparr>"]
  by simp

text \<open>
  Claim C2, as the specification words it, at a configuration with both sub-blocks: the
  provider is \<^verbatim>\<open>'s3'\<close> and both the \<^verbatim>\<open>s3\<close> block and the directory are present. The
  configuration does not have exactly one sub-block, and \<open>get_storage_repository\<close> does
  not raise: it returns the S3 storage the factory makes.
\<close>

theorem both_sub_blocks_counterexample:
  "\<not> exactly_one_sub_block_matching
        \<lparr>provider = ''s3'', dir = Some ''/data'', s3 = Some ''bucket''\<rparr> \<and>
   get_storage_repository (\<lambda>b. b) Inr
      \<lparr>get_CoreSettingsSchema = Inl (ValidationError ''core''),
       get_CoreCacheSettingsSchema = Inl (ValidationError ''cache'') :: error + unit,
       get_CoreStorageSettingsSchema =
         Inr \<lparr>provider = ''s3'', dir = Some ''/data'', s3 = Some ''bucket''\<rparr>,
       get_CoreKafkaSettingsSchema = Inl (ValidationError ''kafka'') :: error + unit\<rparr>
      (\<lambda>t p g. (Inr (t, p), g))
      \<lparr>RedisManager_redis = None, CacheManager_cache_repository = None\<rparr>
    = (Inr (S3, S3StorageParams ''bucket''),
       \<lparr>RedisManager_redis = (None :: unit option),
        CacheManager_cache_repository = (None :: unit option)\<rparr>)"
  by (simp add: exactly_one_sub_block_matching_def get_storage_repository_def)

text \<open>
  Claim C2, amended. \<open>get_storage_repository\<close> raises the \<^verbatim>\<open>not allowed\<close> error for every
  configuration whose provider is neither \<^verbatim>\<open>'s3'\<close> nor \<^verbatim>\<open>'local'\<close> or whose sub-block for
  the chosen provider is absent. When the sub-block of the chosen provider is present,
  the configuration goes to validation and the factory, whether or not the other
  sub-block is present too. A configuration with exactly one sub-block, matching the
  provider, is among the accepted ones.
\<close>

theorem get_storage_repository_matching_block:
  assumes "get_CoreStorageSettingsSchema settings_repository = Inr storage_settings"
  shows "(\<not> matching_sub_block_present storage_settings \<longrightarrow>
          get_storage_repository model_dump model_validate settings_repository factory_make g =
            (Inl (NotImplementedError (''Storage '' @ provider storage_settings @ '' not allowed'')), g)) \<and>
         (matching_sub_block_present storage_settings \<and> provider storage_settings = ''s3'' \<longrightarrow>
          get_storage_repository model_dump model_validate settings_repository factory_make g =
            (case model_validate (model_dump (the (s3 storage_settings))) of
               Inl e \<Rightarrow> (Inl e, g)
             | Inr params \<Rightarrow> factory_make S3 (S3StorageParams params) g)) \<and>
         (matching_sub_block_present storage_settings \<and> provider storage_settings \<noteq> ''s3'' \<longrightarrow>
          get_storage_repository model_dump model_validate settings_repository factory_make g =
            factory_make LOCAL (LocalStorageParams \<lparr>path = the (dir storage_settings)\<rparr>) g) \<and>
         (exactly_one_sub_block_matching storage_settings \<longrightarrow>
            matching_sub_block_present storage_settings)"
  using assms
  by (auto simp add: get_storage_repository_def matching_sub_block_present_def
        exactly_one_sub_block_matching_def)

text \<open>
  The amended C2 at two \<^verbatim>\<open>local\<close> configurations that both carry an \<^verbatim>\<open>s3\<close> block: with
  the directory present the local storage is made, with the directory absent the error
  is raised.
\<close>

theorem get_storage_repository_matching_block_witness:
  "matching_sub_block_present \<lparr>provider = ''local'', dir = Some ''/data'', s3 = Some ''bucket''\<rparr> \<and>
   \<not> matching_sub_block_present \<lparr>provider = ''local'', dir = None, s3 = Some ''bucket''\<rparr> \<and>
   get_storage_repository (\<lambda>b. b) Inr
      \<lparr>get_CoreSettingsSchema = Inl (ValidationError ''core''),
       get_CoreCacheSettingsSchema = Inl (ValidationError ''cache'') :: error + unit,
       get_CoreStorageSettingsSchema =
         Inr \<lparr>provider = ''local'', dir = Some ''/data'', s3 = Some ''bucket''\<rparr>,
       get_CoreKafkaSettingsSchema = Inl (ValidationError ''kafka'') :: error + unit\<rparr>
      (\<lambda>t p g. (Inr (t, p), g))
      \<lparr>RedisManager_redis = None, CacheManager_cache_repository = None\<rparr>
    = (Inr (LOCAL, LocalStorageParams \<lparr>path = ''/data''\<rparr>),
       \<lparr>RedisManager_redis = (None :: unit option),
        CacheManager_cache_repository = (None :: unit option)\<rparr>) \<and>
   get_storage_repository (\<lambda>b. b) Inr
      \<lparr>get_CoreSettingsSchema = Inl (ValidationError ''core''),
       get_CoreCacheSettingsSchema = Inl (ValidationError ''cache'') :: error + unit,
       get_CoreStorageSettingsSchema =
         Inr \<lparr>provider = ''local'', dir = None, s3 = Some ''bucket''\<rparr>,
       get_CoreKafkaSettingsSchema = Inl (ValidationError ''kafka'') :: error + unit\<rparr>
      (\<lambda>t p g. (Inr (t, p), g))
      \<lparr>RedisManager_redis = None, CacheManager_cache_repository = None\<rparr>
    = (Inl (NotImplementedError ''Storage local not allowed''),
       \<lparr>RedisManager_redis = (None :: unit option),
        CacheManager_cache_repository = (None :: unit option)\<rparr>)"
  using
    get_storage_repository_matching_block [where
      settings_repository = "\<lparr>get_CoreSettingsSchema = Inl (ValidationError ''core''),
       get_CoreCacheSettingsSchema = Inl (ValidationError ''cache'') :: error + unit,
       get_CoreStorageSettingsSchema =
         Inr \<lparr>provider = ''local'', dir = Some ''/data'', s3 = Some ''bucket''\<rparr>,
       get_CoreKafkaSettingsSchema = Inl (ValidationError ''kafka'') :: error + unit\<rparr>"
      and storage_settings = "\<lparr>provider = ''local'', dir = Some ''/data'', s3 = Some ''bucket''\<rparr>"
      and model_validate = Inr and model_dump = "\<lambda>b. b"
      and factory_make = "\<lambda>t p g. (Inr (t, p), g)"
      and g = "\<lparr>RedisManager_redis = (None :: unit option),
               CacheManager_cache_repository = (None :: unit option)\<rparr>"]
    get_storage_repository_matching_block [where
      settings_repository = "\<lparr>get_CoreSettingsSchema = Inl (ValidationError ''core''),
       get_CoreCacheSettingsSchema = Inl (ValidationError ''cache'') :: error + unit,
       get_CoreStorageSettingsSchema =
         Inr \<lparr>provider = ''local'', dir = None, s3 = Some ''bucket''\<rparr>,
       get_CoreKafkaSettingsSchema = Inl (ValidationError ''kafka'') :: error + unit\<rparr>"
      and storage_settings = "\<lparr>provider = ''local'', dir = None, s3 = Some ''bucket''\<rparr>"
      and model_validate = Inr and model_dump = "\<lambda>b. b"
      and factory_make = "\<lambda>t p g. (Inr (t, p), g)"
      and g = "\<lparr>RedisManager_redis = (None :: unit option),
               CacheManager_cache_repository = (None :: unit option)\<rparr>"]
  by (simp add: matching_sub_block_present_def)

text \<open>
  Claim C8. \<open>get_storage_repository\<close> assigns neither \<^verbatim>\<open>RedisManager.redis\<close> nor
  \<^verbatim>\<open>CacheManager.cache_repository\<close>: when the factory's \<^verbatim>\<open>make\<close> leaves the globals as
  they are, so does \<open>get_storage_repository\<close>, whatever it returns or raises.
\<close>

theorem get_storage_repository_frame:
  assumes "\<forall>t p. snd (factory_make t p g) = g"
  shows "snd (get_storage_repository model_dump model_validate settings_repository factory_make g) = g"
  using assms by (simp add: get_storage_repository_def split: sum.split)

text \<open>C8 with published singletons and a factory that does not touch them.\<close>

theorem get_storage_repository_frame_witness:
  "(\<forall>t p. snd ((\<lambda>t p g. (Inr (t, p), g)) t (p :: string StorageParams)
        \<lparr>RedisManager_redis = Some ''redis'', CacheManager_cache_repository = Some ''cache''\<rparr>) =
        \<lparr>RedisManager_redis = Some ''redis'', CacheManager_cache_repository = Some ''cache''\<rparr>) \<and>
   snd (get_storage_repository (\<lambda>b. b) Inr
      \<lparr>get_CoreSettingsSchema = Inl (ValidationError ''core''),
       get_CoreCacheSettingsSchema = Inl (ValidationError ''cache'') :: error + unit,
       get_CoreStorageSettingsSchema =
         Inr \<lparr>provider = ''s3'', dir = Some ''/data'', s3 = Some ''bucket''\<rparr>,
       get_CoreKafkaSettingsSchema = Inl (ValidationError ''kafka'') :: error + unit\<rparr>
      (\<lambda>t p g. (Inr (t, p), g))
      \<lparr>RedisManager_redis = Some ''redis'', CacheManager_cache_repository = Some ''cache''\<rparr>)
    = \<lparr>RedisManager_redis = Some ''redis'', CacheManager_cache_repository = Some ''cache''\<rparr>"
  using get_storage_repository_frame [where
      factory_make = "\<lambda>t (p :: string StorageParams) g. (Inr (t, p), g)"
      and g = "\<lparr>RedisManager_redis = Some ''redis'', CacheManager_cache_repository = Some ''cache''\<rparr>"
      and model_dump = "\<lambda>b. b" and model_validate = Inr
      and settings_repository = "\<lparr>get_CoreSettingsSchema = Inl (ValidationError ''core''),
       get_CoreCacheSettingsSchema = Inl (ValidationError ''cache'') :: error + unit,
       get_CoreStorageSettingsSchema =
         Inr \<lparr>provider = ''s3'', dir = Some ''/data'', s3 = Some ''bucket''\<rparr>,
       get_CoreKafkaSettingsSchema = Inl (ValidationError ''kafka'') :: error + unit\<rparr>"]
  by simp

subsection \<open>The cryptography service\<close>

text \<open>
  Claim C5, as stated: for some settings, \<open>get_cryptography_service\<close> asks the factory
  for an algorithm other than \<open>AES_GCM\<close>. A factory method that returns the factory and
  the algorithm it is called with shows the request; no settings give another algorithm.
\<close>

theorem fixed_algorithm_counterexample:
  "\<not> (\<exists>settings algorithm.
        algorithm \<noteq> AES_GCM \<and>
        get_cryptography_service (\<lambda>factory alg. Inr (factory, alg))
          (get_cryptography_service_factory settings) =
        Inr (CryptographyServiceFactory (secret_key settings), algorithm))"
  by (simp add: get_cryptography_service_def get_cryptography_service_factory_def)

text \<open>
  Claim C5, amended. The algorithm is fixed in the code: for every settings record,
  \<open>get_cryptography_service\<close> asks the factory made from these settings for \<open>AES_GCM\<close>.
  Only the secret key the factory is made with comes from the configuration.
\<close>

theorem get_cryptography_service_AES_GCM:
  "get_cryptography_service factory_make (get_cryptography_service_factory settings) =
     factory_make (CryptographyServiceFactory (secret_key settings)) AES_GCM"
  by (simp add: get_cryptography_service_def get_cryptography_service_factory_def)

subsection \<open>The cache repository\<close>

text \<open>\<^verbatim>\<open>RedisManager.init\<close> does not assign \<^verbatim>\<open>CacheManager.cache_repository\<close>.\<close>

lemma call_redis_init_cache [simp]:
  "CacheManager_cache_repository (snd (call_redis_init redis_init dsn g)) =
     CacheManager_cache_repository g"
  by (simp add: call_redis_init_def split: prod.split)



subsection \<open>The lock service\<close>

text \<open>
  Claim C4, with \<^verbatim>\<open>RedisManager.init\<close> as the specification describes it
  (\<open>RedisManager_init\<close>). For every settings record with a DSN, \<open>get_lock_service\<close>
  returns a \<open>RedisLockService\<close> built on the handle that \<^verbatim>\<open>RedisManager.redis\<close> holds
  after the call; neither assertion fails; with a handle already published the service
  is built on that handle and the globals do not change. For any \<^verbatim>\<open>init\<close> at all, a
  service that is returned is built on the handle \<^verbatim>\<open>RedisManager.redis\<close> then holds.
\<close>

theorem get_lock_service_shared_handle:
  assumes "redis_dsn settings = Some dsn"
  shows "get_lock_service (RedisManager_init from_url) settings g =
           (Inr (RedisLockService
                   (case RedisManager_redis g of None \<Rightarrow> from_url dsn | Some client \<Rightarrow> client)),
            g\<lparr>RedisManager_redis :=
                Some (case RedisManager_redis g of None \<Rightarrow> from_url dsn | Some client \<Rightarrow> client)\<rparr>) \<and>
         fst (get_lock_service (RedisManager_init from_url) settings g) \<noteq> Inl AssertionError \<and>
         (RedisManager_redis g = Some client \<longrightarrow>
            get_lock_service (RedisManager_init from_url) settings g =
              (Inr (RedisLockService client), g)) \<and>
         (get_lock_service redis_init settings g = (Inr (RedisLockService redis), g_redis) \<longrightarrow>
            RedisManager_redis g_redis = Some redis)"
  using assms
  by (auto simp add: get_lock_service_def call_redis_init_def RedisManager_init_def
        split: option.splits prod.splits)

text \<open>C4 at a first use and at a call with a handle already published.\<close>

theorem get_lock_service_shared_handle_witness:
  "get_lock_service (RedisManager_init (\<lambda>url. url))
      \<lparr>redis_dsn = Some ''redis://lock'', secret_key = ''key''\<rparr>
      \<lparr>RedisManager_redis = None, CacheManager_cache_repository = (None :: unit option)\<rparr>
    = (Inr (RedisLockService ''redis://lock''),
       \<lparr>RedisManager_redis = Some ''redis://lock'', CacheManager_cache_repository = None\<rparr>) \<and>
   get_lock_service (RedisManager_init (\<lambda>url. url))
      \<lparr>redis_dsn = Some ''redis://lock'', secret_key = ''key''\<rparr>
      \<lparr>RedisManager_redis = Some ''published'', CacheManager_cache_repository = (None :: unit option)\<rparr>
    = (Inr (RedisLockService ''published''),
       \<lparr>RedisManager_redis = Some ''published'', CacheManager_cache_repository = None\<rparr>)"
  using
    get_lock_service_shared_handle [where
      settings = "\<lparr>redis_dsn = Some ''redis://lock'', secret_key = ''key''\<rparr>"
      and dsn = "''redis://lock''" and from_url = "\<lambda>url. url"
      and g = "\<lparr>RedisManager_redis = None, CacheManager_cache_repository = (None :: unit option)\<rparr>"]
    get_lock_service_shared_handle [where
      settings = "\<lparr>redis_dsn = Some ''redis://lock'', secret_key = ''key''\<rparr>"
      and dsn = "''redis://lock''" and from_url = "\<lambda>url. url"
      and g = "\<lparr>RedisManager_redis = Some ''published'', CacheManager_cache_repository = (None :: unit option)\<rparr>"]
  by simp

subsection \<open>Scopes and registration\<close>

text \<open>
  Claim C6. The nine shared providers of \<^verbatim>\<open>CoreProvider\<close> are registered with the scope
  \<open>APP\<close>; the database session, the session manager, the seed service and the
  transaction service are registered with the scope of the class, which is \<open>REQUEST\<close>
  (the scope under which the container library builds an object anew for each request).
\<close>

theorem CoreProvider_scope_tags:
  "map CoreProvider_registered
     [''settings_repository_factory'', ''storage_repository_factory'',
      ''get_settings_repository'', ''get_settings'', ''get_cache_repository'',
      ''get_storage_repository'', ''get_cryptography_service_factory'',
      ''get_cryptography_service'', ''get_lock_service'']
   = [Some APP, Some APP, Some APP, Some APP, Some APP, Some APP, Some APP, Some APP, Some APP] \<and>
   map CoreProvider_registered
     [''get_async_session'', ''get_session_manager'', ''seed_service'', ''transaction_service'']
   = [Some REQUEST, Some REQUEST, Some REQUEST, Some REQUEST] \<and>
   CoreProvider_scope = REQUEST"
  by (simp add: CoreProvider_registered_def CoreProvider_members_def CoreProvider_scope_def)

text \<open>
  Claim C7, at the member \<^verbatim>\<open>get_broker_repository\<close>: the class has the member, and the
  member is not made by \<^verbatim>\<open>provide\<close>, so no provider of the message broker is
  registered.
\<close>

theorem get_broker_repository_not_registered:
  "CoreProvider_registered ''get_broker_repository'' = None \<and>
   ''get_broker_repository'' \<in> set (map member_name CoreProvider_members)"
  by (simp add: CoreProvider_registered_def CoreProvider_members_def)

text \<open>
  Called directly with a settings repository that gives the Kafka settings,
  \<open>get_broker_repository\<close> yields what \<^verbatim>\<open>BrokerFactory.make_static\<close> makes from them.
\<close>

theorem get_broker_repository_make_static:
  "get_CoreKafkaSettingsSchema settings_repository = Inr kafka_settings \<Longrightarrow>
   get_broker_repository make_static settings_repository = make_static kafka_settings"
  by (simp add: get_broker_repository_def)

theorem get_broker_repository_make_static_witness:
  "get_broker_repository (\<lambda>kafka_settings. Inr (''broker for '' @ kafka_settings))
     \<lparr>get_CoreSettingsSchema = Inl (ValidationError ''core''),
      get_CoreCacheSettingsSchema = Inl (ValidationError ''cache'') :: error + unit,
      get_CoreStorageSettingsSchema =
        Inl (ValidationError ''storage'') :: error + unit CoreStorageSettingsSchema,
      get_CoreKafkaSettingsSchema = Inr ''kafka:9092''\<rparr>
   = (Inr ''broker for kafka:9092'' :: error + string)"
  using get_broker_repository_make_static [where
      make_static = "\<lambda>kafka_settings. Inr (''broker for '' @ kafka_settings) :: error + string"
      and kafka_settings = "''kafka:9092''"
      and settings_repository =
        "\<lparr>get_CoreSettingsSchema = Inl (ValidationError ''core''),
          get_CoreCacheSettingsSchema = Inl (ValidationError ''cache'') :: error + unit,
          get_CoreStorageSettingsSchema =
            Inl (ValidationError ''storage'') :: error + unit CoreStorageSettingsSchema,
          get_CoreKafkaSettingsSchema = Inr ''kafka:9092''\<rparr>"]
  by simp

subsection \<open>Pagination and sorting\<close>

text \<open>
  Claim C9, as stated, at a page of -5 and a schema whose validation refuses negative
  values: -5 is truthy, so it is the value handed to the constructor, which raises.
  \<open>get_pagination\<close> returns no record there, and none whose page is -5.
\<close>

theorem get_pagination_negative_counterexample:
  "get_pagination
     (\<lambda>p ps. if p < 0 \<or> ps < 0 then Some (ValidationError ''negative'') else None)
     (Some (- 5)) None = Inl (ValidationError ''negative'') \<and>
   \<not> (\<exists>r. get_pagination
           (\<lambda>p ps. if p < 0 \<or> ps < 0 then Some (ValidationError ''negative'') else None)
           (Some (- 5)) None = Inr r \<and> page r = - 5)"
  by (simp add: get_pagination_def new_PaginationRequestSchema_def or_default_def truthy_def)

text \<open>
  Claim C9, amended. Let \<open>n\<close> be the given page when that is a number other than 0, and
  1 when it is \<^verbatim>\<open>None\<close> or 0; let \<open>m\<close> be the given page size when that is a number other
  than 0, and 10 when it is \<^verbatim>\<open>None\<close> or 0. \<open>get_pagination\<close> hands \<open>n\<close> and \<open>m\<close> to the
  constructor of the schema: it returns the record with page \<open>n\<close> and page size \<open>m\<close> when
  the validation of the schema accepts them, and raises the validation error when it
  does not. Passing 0 for both is the same as passing nothing: the constructor is called
  with 1 and 10.
\<close>

theorem get_pagination_validated:
  assumes page_value:
      "page_arg = Some n \<and> n \<noteq> 0 \<or> (page_arg = None \<or> page_arg = Some 0) \<and> n = 1"
    and page_size_value:
      "page_size_arg = Some m \<and> m \<noteq> 0 \<or>
       (page_size_arg = None \<or> page_size_arg = Some 0) \<and> m = 10"
  shows "(validate n m = None \<longrightarrow>
            get_pagination validate page_arg page_size_arg = Inr \<lparr>page = n, page_size = m\<rparr>) \<and>
         (validate n m = Some e \<longrightarrow>
            get_pagination validate page_arg page_size_arg = Inl e) \<and>
         get_pagination validate (Some 0) (Some 0) = get_pagination validate None None \<and>
         get_pagination validate None None = new_PaginationRequestSchema validate 1 10"
proof -
  have given: "or_default (Some k) d = (if k = 0 then d else k)" for k d
    by (simp add: or_default_def truthy_def)
  have missing: "or_default None d = d" for d
    by (simp add: or_default_def truthy_def)
  from page_value have n: "or_default page_arg 1 = n"
    by (auto simp add: given missing)
  from page_size_value have m: "or_default page_size_arg 10 = m"
    by (auto simp add: given missing)
  have call: "get_pagination validate page_arg page_size_arg =
      new_PaginationRequestSchema validate n m"
    by (simp add: get_pagination_def n m)
  have accepted: "validate n m = None \<Longrightarrow>
      new_PaginationRequestSchema validate n m = Inr \<lparr>page = n, page_size = m\<rparr>"
    by (simp add: new_PaginationRequestSchema_def)
  have refused: "validate n m = Some e \<Longrightarrow> new_PaginationRequestSchema validate n m = Inl e"
    by (simp add: new_PaginationRequestSchema_def)
  have zero: "get_pagination validate (Some 0) (Some 0) = get_pagination validate None None"
    by (simp add: get_pagination_def given missing)
  have defaults: "get_pagination validate None None = new_PaginationRequestSchema validate 1 10"
    by (simp add: get_pagination_def missing)
  from accepted refused zero defaults show ?thesis
    by (simp add: call)
qed

text \<open>
  The amended C9 with a validation that refuses negative values: a page of 3 with a page
  size of 0 gives the record with page 3 and page size 10; a page size of -5 raises.
\<close>

theorem get_pagination_validated_witness:
  "get_pagination
     (\<lambda>p ps. if p < 0 \<or> ps < 0 then Some (ValidationError ''negative'') else None)
     (Some 3) (Some 0) = Inr \<lparr>page = 3, page_size = 10\<rparr> \<and>
   get_pagination
     (\<lambda>p ps. if p < 0 \<or> ps < 0 then Some (ValidationError ''negative'') else None)
     None (Some (- 5)) = Inl (ValidationError ''negative'')"
  using
    get_pagination_validated [where page_arg = "Some 3" and n = 3
      and page_size_arg = "Some 0" and m = 10
      and validate = "\<lambda>p ps. if p < 0 \<or> ps < 0 then Some (ValidationError ''negative'') else None"]
    get_pagination_validated [where page_arg = None and n = 1
      and page_size_arg = "Some (- 5)" and m = "- 5"
      and validate = "\<lambda>p ps. if p < 0 \<or> ps < 0 then Some (ValidationError ''negative'') else None"
      and e = "ValidationError ''negative''"]
  by simp

text \<open>\<^verbatim>\<open>split\<close> gives at least one piece; a comprehension is empty only over no element.\<close>

lemma str_split_not_Nil: "str_split sep str \<noteq> []"
  by (induction str) (auto split: list.split)

lemma comprehension_Nil_iff: "comprehension f xs = Inr [] \<longleftrightarrow> xs = []"
  by (cases xs) (auto split: sum.split)

text \<open>
  \<open>get_sorting\<close> returns the empty list exactly when the sorting string is \<^verbatim>\<open>None\<close> or
  empty.
\<close>

theorem get_sorting_empty_iff:
  "get_sorting snakecase sorting = Inr [] \<longleftrightarrow> sorting = None \<or> sorting = Some []"
  by (auto simp add: get_sorting_def comprehension_Nil_iff str_split_not_Nil split: option.split)

text \<open>
  The comprehension over pieces none of which is empty, and over pieces one of which is.
\<close>

lemma comprehension_sorting_field:
  "[] \<notin> set pieces \<Longrightarrow>
   comprehension (sorting_field snakecase) pieces =
     Inr (map (\<lambda>s. if hd s = CHR ''-'' then CHR ''-'' # snakecase (tl s) else snakecase s) pieces)"
  by (induction pieces) (auto simp add: sorting_field_def split: list.split)

lemma comprehension_sorting_field_empty:
  "[] \<in> set pieces \<Longrightarrow> comprehension (sorting_field snakecase) pieces = Inl IndexError"
  by (induction pieces) (auto simp add: sorting_field_def split: list.split sum.split)

text \<open>
  For a non-empty string with no empty piece between its commas, \<open>get_sorting\<close> returns
  the pieces in order, each in snake case, with a leading \<^verbatim>\<open>-\<close> kept.
\<close>

theorem get_sorting_fields:
  assumes "str \<noteq> []" and "[] \<notin> set (str_split CHR '','' str)"
  shows "get_sorting snakecase (Some str) =
     Inr (map (\<lambda>s. if hd s = CHR ''-'' then CHR ''-'' # snakecase (tl s) else snakecase s)
            (str_split CHR '','' str))"
  using assms by (simp add: get_sorting_def comprehension_sorting_field)

theorem get_sorting_fields_witness:
  "get_sorting (map (\<lambda>ch. if ch = CHR ''A'' then CHR ''a'' else ch)) (Some ''-Age,nAme'') =
     Inr [''-age'', ''name'']"
  using get_sorting_fields [where str = "''-Age,nAme''"
      and snakecase = "map (\<lambda>ch. if ch = CHR ''A'' then CHR ''a'' else ch)"]
  by simp

text \<open>
  A non-empty string with an empty piece between its commas: \<^verbatim>\<open>s[0]\<close> raises
  \<^verbatim>\<open>IndexError\<close> on the empty piece.
\<close>

theorem get_sorting_empty_field:
  assumes "str \<noteq> []" and "[] \<in> set (str_split CHR '','' str)"
  shows "get_sorting snakecase (Some str) = Inl IndexError"
  using assms by (simp add: get_sorting_def comprehension_sorting_field_empty)

theorem get_sorting_empty_field_witness:
  "get_sorting (\<lambda>s. s) (Some ''a,,b'') = Inl IndexError"
  using get_sorting_empty_field [where str = "''a,,b''" and snakecase = "\<lambda>s. s"]
  by simp

text \<open>
  Claim C10, at the sorting string \<^verbatim>\<open>'name,'\<close>: the string is not empty, its second piece
  is, and \<^verbatim>\<open>s[0]\<close> raises \<^verbatim>\<open>IndexError\<close> on it.
\<close>

theorem get_sorting_trailing_comma:
  "get_sorting snakecase (Some ''name,'') = Inl IndexError"
  by (simp add: get_sorting_def sorting_field_def)

end
